theory Spec2Isabelle
  imports Complex_Main "HOL-Library.AList"
begin

section \<open>Go values\<close>

text \<open>
  The benchmark driver \<^verbatim>\<open>csbench.go\<close> is embedded function by function. Go's \<^verbatim>\<open>int\<close> is
  a signed 64-bit integer. Its values are modelled as \<^typ>\<open>int\<close>, and an arithmetic
  result that the source does not keep below a loop bound is wrapped into the 64-bit
  range by \<open>int64\<close>. A \<^verbatim>\<open>float64\<close> is modelled as an exact \<^typ>\<open>real\<close>; where a
  library call returns NaN together with an error, the value is \<^term>\<open>None\<close>.

  An integer remainder by zero is a run-time panic in Go, so \<^verbatim>\<open>a % b\<close> returns a sum.
  The remainder takes the sign of the dividend.
\<close>

datatype panic = IntegerDivideByZero

definition int64 :: "int \<Rightarrow> int" where
  "int64 x = (x + 2 ^ 63) mod 2 ^ 64 - 2 ^ 63"

definition go_rem :: "int \<Rightarrow> int \<Rightarrow> panic + int" where
  "go_rem a b =
     (if b = 0 then Inl IntegerDivideByZero else Inr (sgn a * (\<bar>a\<bar> mod \<bar>b\<bar>)))"

text \<open>
  \<^verbatim>\<open>math.Round\<close> rounds half away from zero; the source rounds to three decimals with
  \<^verbatim>\<open>math.Round(x*1000) / 1000\<close>.
\<close>

definition math_Round :: "real \<Rightarrow> real" where
  "math_Round x = (if x < 0 then of_int \<lceil>x - 1 / 2\<rceil> else of_int \<lfloor>x + 1 / 2\<rfloor>)"

definition round3 :: "real \<Rightarrow> real" where
  "round3 x = math_Round (x * 1000) / 1000"

definition threeDecimals :: "real \<Rightarrow> bool" where
  "threeDecimals d \<longleftrightarrow> of_int \<lfloor>d * 1000\<rfloor> = d * 1000"

section \<open>Progress reporting during submission\<close>

text \<open>
  \<^verbatim>\<open>progressMarker := int(math.Ceil(float64(count) / 10.0))\<close>, as computed at the head of
  \<^verbatim>\<open>createDomains\<close>, \<^verbatim>\<open>updateLimits\<close>, \<^verbatim>\<open>createNetwork\<close>, \<^verbatim>\<open>createVms\<close> and
  \<^verbatim>\<open>createVolumes\<close>.
\<close>

definition progressMarker :: "int \<Rightarrow> int" where
  "progressMarker count = \<lceil>real_of_int count / 10\<rceil>"

text \<open>
  The state of a submission loop: the progress lines logged so far, each recorded as the
  pair of the running submission index (the number of tasks handed to the pool, counting
  the one of the current iteration) and the number the log line prints; and the number of
  tasks handed to the pool.
\<close>

record submission =
  logged :: "(nat \<times> int) list"
  submitted :: nat

fun runLoop :: "('s \<Rightarrow> 'a \<Rightarrow> panic + 's) \<Rightarrow> 's \<Rightarrow> 'a list \<Rightarrow> panic + 's" where
  "runLoop body st [] = Inr st"
| "runLoop body st (x # xs) =
     (case body st x of Inl e \<Rightarrow> Inl e | Inr st' \<Rightarrow> runLoop body st' xs)"

text \<open>
  One iteration of a submission loop: \<^verbatim>\<open>if progress % progressMarker == 0 { log.Infof(...,
  progress) }\<close> followed by \<^verbatim>\<open>workerPool.Go(...)\<close>.
\<close>

definition submitTask :: "int \<Rightarrow> int \<Rightarrow> submission \<Rightarrow> panic + submission" where
  "submitTask progress marker st =
     (case go_rem progress marker of
        Inl e \<Rightarrow> Inl e
      | Inr r \<Rightarrow>
          Inr \<lparr>logged = (if r = 0 then logged st @ [(Suc (submitted st), progress)]
                          else logged st),
               submitted = Suc (submitted st)\<rparr>)"

text \<open>\<^verbatim>\<open>createDomains\<close>: \<^verbatim>\<open>for i := 0; i < count; i++\<close>, logging on \<^verbatim>\<open>(i+1) % progressMarker\<close>.\<close>

definition createDomains_submit :: "int \<Rightarrow> panic + submission" where
  "createDomains_submit count =
     runLoop (\<lambda>st i. submitTask (i + 1) (progressMarker count) st)
       \<lparr>logged = [], submitted = 0\<rparr> (map int [0..<nat count])"

text \<open>
  \<^verbatim>\<open>createVms\<close>: \<^verbatim>\<open>for i, network := range allNetworks\<close> around
  \<^verbatim>\<open>for j := 1; j <= numVmPerNetwork; j++\<close>, logging on \<^verbatim>\<open>(i*j+j) % progressMarker\<close>
  with the marker computed from \<^verbatim>\<open>len(allNetworks)*numVmPerNetwork\<close>. The product and
  the logged number are 64-bit results and wrap around.
\<close>

definition createVms_submit :: "nat \<Rightarrow> int \<Rightarrow> panic + submission" where
  "createVms_submit numNetworks numVmPerNetwork =
     runLoop (\<lambda>st i.
         runLoop (\<lambda>st' j.
             submitTask (int64 (int64 (i * j) + j))
               (progressMarker (int64 (int numNetworks * numVmPerNetwork))) st')
           st (map int [1..<Suc (nat numVmPerNetwork)]))
       \<lparr>logged = [], submitted = 0\<rparr> (map int [0..<numNetworks])"

section \<open>Outcome aggregation\<close>

record Result =
  Success :: bool
  Duration :: real

definition getSamples_iter ::
  "real list \<times> real list \<times> real list \<Rightarrow> Result \<Rightarrow> real list \<times> real list \<times> real list" where
  "getSamples_iter acc result =
     (case acc of (allExecutionsSample, successfulExecutionSample, failedExecutionSample) \<Rightarrow>
        let duration = round3 (Duration result) in
        if Success result
        then (allExecutionsSample @ [duration], successfulExecutionSample @ [duration],
              failedExecutionSample)
        else (allExecutionsSample @ [duration], successfulExecutionSample,
              failedExecutionSample @ [duration]))"

definition getSamples :: "Result list \<Rightarrow> real list \<times> real list \<times> real list" where
  "getSamples results = foldl getSamples_iter ([], [], []) results"

section \<open>Statistics\<close>

text \<open>
  Modelled from the spec: the statistics package behind \<^verbatim>\<open>sample.Min()\<close>,
  \<^verbatim>\<open>sample.Max()\<close>, \<^verbatim>\<open>sample.Mean()\<close>, \<^verbatim>\<open>sample.Median()\<close> and
  \<^verbatim>\<open>sample.Percentile(p)\<close> is an imported dependency whose code is not part of the
  sources. Section 4.4 of the specification gives the extrema, the arithmetic mean, the
  standard median (the average of the two middle values of an even-sized sample) and a
  percentile taken by rank with interpolation between neighbouring order statistics:
  the rank index is \<open>p / 100 * n\<close>; a whole index selects that order statistic, any other
  index above one yields the value halfway between the order statistics on either side.
  A sample of one value has that value as every percentile. An empty sample is an input
  error (section 7), as is a percentage outside of 0 < p \<le> 100 or a fractional index
  not above one: the call reports the error and no number, which is \<^term>\<open>None\<close> here.
\<close>

definition stats_Min :: "real list \<Rightarrow> real option" where
  "stats_Min input = (case input of [] \<Rightarrow> None | x # xs \<Rightarrow> Some (fold min xs x))"

definition stats_Max :: "real list \<Rightarrow> real option" where
  "stats_Max input = (case input of [] \<Rightarrow> None | x # xs \<Rightarrow> Some (fold max xs x))"

definition stats_Mean :: "real list \<Rightarrow> real option" where
  "stats_Mean input =
     (if length input = 0 then None else Some (sum_list input / real (length input)))"

definition stats_Median :: "real list \<Rightarrow> real option" where
  "stats_Median input =
     (let c = sort input; l = length c in
      if l = 0 then None
      else if l mod 2 = 0 then stats_Mean [c ! (l div 2 - 1), c ! (l div 2)]
      else Some (c ! (l div 2)))"

definition stats_Percentile :: "real list \<Rightarrow> real \<Rightarrow> real option" where
  "stats_Percentile input percent =
     (if length input = 0 then None
      else if length input = 1 then Some (input ! 0)
      else if percent \<le> 0 \<or> 100 < percent then None
      else
        let c = sort input;
            index = (percent / 100) * real (length c)
        in if index = of_int \<lfloor>index\<rfloor> then Some (c ! (nat \<lfloor>index\<rfloor> - 1))
           else if 1 < index
             then stats_Mean [c ! (nat \<lfloor>index\<rfloor> - 1), c ! nat \<lfloor>index\<rfloor>]
           else None)"

text \<open>
  The value a percentile takes at the rank index \<open>x\<close> of the sorted sample \<open>c\<close>, for
  stating how \<^verbatim>\<open>Percentile\<close> depends on the index.
\<close>

definition rankValue :: "real list \<Rightarrow> real \<Rightarrow> real" where
  "rankValue c x =
     (if x = of_int \<lfloor>x\<rfloor> then c ! (nat \<lfloor>x\<rfloor> - 1)
      else (c ! (nat \<lfloor>x\<rfloor> - 1) + c ! nat \<lfloor>x\<rfloor>) / 2)"

text \<open>
  \<^verbatim>\<open>getRowFromSample\<close> discards every error of the statistics calls and rounds each
  statistic on its own. The row \<^verbatim>\<open>table.Row{key, len(sample), min, max, mean, median,
  percentile90, percentile95, percentile99}\<close> is a record.
\<close>

record StatRow =
  row_key :: string
  row_count :: nat
  row_min :: "real option"
  row_max :: "real option"
  row_mean :: "real option"
  row_median :: "real option"
  row_percentile90 :: "real option"
  row_percentile95 :: "real option"
  row_percentile99 :: "real option"

definition getRowFromSample :: "string \<Rightarrow> real list \<Rightarrow> StatRow" where
  "getRowFromSample key sample =
     \<lparr>row_key = key,
      row_count = length sample,
      row_min = map_option round3 (stats_Min sample),
      row_max = map_option round3 (stats_Max sample),
      row_mean = map_option round3 (stats_Mean sample),
      row_median = map_option round3 (stats_Median sample),
      row_percentile90 = map_option round3 (stats_Percentile sample 90),
      row_percentile95 = map_option round3 (stats_Percentile sample 95),
      row_percentile99 = map_option round3 (stats_Percentile sample 99)\<rparr>"

section \<open>Report rendering\<close>

text \<open>
  The table writer of the rendering package keeps a header, the appended rows and a single
  output mirror, which \<^verbatim>\<open>SetOutputMirror\<close> assigns. A mirror is an \<^verbatim>\<open>io.Writer\<close>: standard
  output or an \<^verbatim>\<open>*os.File\<close>, which is nil when \<^verbatim>\<open>os.Create\<close> failed.
\<close>

datatype file_handle = OpenFile string | NilFile

datatype writer = Stdout | FileWriter file_handle

record table_writer =
  tw_header :: "string list"
  tw_rows :: "StatRow list"
  tw_outputMirror :: "writer option"

definition table_NewWriter :: table_writer where
  "table_NewWriter = \<lparr>tw_header = [], tw_rows = [], tw_outputMirror = None\<rparr>"

definition SetOutputMirror :: "writer \<Rightarrow> table_writer \<Rightarrow> table_writer" where
  "SetOutputMirror mirror t = t\<lparr>tw_outputMirror := Some mirror\<rparr>"

definition AppendHeader :: "string list \<Rightarrow> table_writer \<Rightarrow> table_writer" where
  "AppendHeader row t = t\<lparr>tw_header := row\<rparr>"

definition AppendRow :: "StatRow \<Rightarrow> table_writer \<Rightarrow> table_writer" where
  "AppendRow row t = t\<lparr>tw_rows := tw_rows t @ [row]\<rparr>"

definition reportHeader :: "string list" where
  "reportHeader = [''Type'', ''Count'', ''Min'', ''Max'', ''Avg'', ''Median'',
     ''90th percentile'', ''95th percentile'', ''99th percentile'']"

text \<open>
  The body of \<^verbatim>\<open>for key, result := range results\<close> in \<^verbatim>\<open>generateReport\<close>. The map is
  given as the list of its entries in the order the range statement visits them.
\<close>

definition generateReport_iter :: "table_writer \<Rightarrow> string \<times> Result list \<Rightarrow> table_writer" where
  "generateReport_iter t entry =
     (case entry of (key, result) \<Rightarrow>
        (case getSamples result of
           (allExecutionsSample, successfulExecutionSample, failedExecutionSample) \<Rightarrow>
             let t1 = AppendRow (getRowFromSample (key @ '' - All'') allExecutionsSample) t in
             if length failedExecutionSample \<noteq> 0
             then AppendRow (getRowFromSample (key @ '' - Failed'') failedExecutionSample)
                    (AppendRow
                       (getRowFromSample (key @ '' - Successful'') successfulExecutionSample) t1)
             else t1))"

definition reportTable :: "(string \<times> Result list) list \<Rightarrow> table_writer" where
  "reportTable results =
     foldl generateReport_iter
       (AppendHeader reportHeader (SetOutputMirror Stdout table_NewWriter)) results"

text \<open>The rows one category contributes to the table, in the order they are appended.\<close>

definition categoryRows :: "string \<Rightarrow> Result list \<Rightarrow> StatRow list" where
  "categoryRows key result =
     getRowFromSample (key @ '' - All'') (fst (getSamples result)) #
     (if snd (snd (getSamples result)) = [] then []
      else [getRowFromSample (key @ '' - Successful'') (fst (snd (getSamples result))),
            getRowFromSample (key @ '' - Failed'') (snd (snd (getSamples result)))])"

text \<open>
  What the process writes: standard output, the files it created, and the log file. A
  rendered report is kept as the format with the header and rows it was rendered from.
  The logger's sink is set up in \<^verbatim>\<open>init\<close> as \<^verbatim>\<open>io.MultiWriter(os.Stdout, logFile)\<close>, so a
  log line reaches both. Whether \<^verbatim>\<open>os.Create\<close> succeeds for a path is a property of the
  environment.
\<close>

datatype rendering = RenderCSV | RenderTSV | RenderTable

datatype out_item = Line string | Rendered rendering "string list" "StatRow list"

record world =
  stdout :: "out_item list"
  files :: "string \<Rightarrow> out_item list option"
  logfile :: "string list"
  creatable :: "string \<Rightarrow> bool"

definition fmt_Println :: "string \<Rightarrow> world \<Rightarrow> world" where
  "fmt_Println s w = w\<lparr>stdout := stdout w @ [Line s]\<rparr>"

definition log_Error :: "string \<Rightarrow> world \<Rightarrow> world" where
  "log_Error msg w = w\<lparr>stdout := stdout w @ [Line msg], logfile := logfile w @ [msg]\<rparr>"

text \<open>\<^verbatim>\<open>os.Create\<close> returns the truncated file, or a nil file and an error.\<close>

definition os_Create :: "string \<Rightarrow> world \<Rightarrow> (file_handle \<times> string option) \<times> world" where
  "os_Create path w =
     (if creatable w path
      then ((OpenFile path, None), w\<lparr>files := (files w)(path \<mapsto> [])\<rparr>)
      else ((NilFile, Some ''cannot create file''), w))"

text \<open>
  \<^verbatim>\<open>Write\<close> on the mirror. A write to a nil \<^verbatim>\<open>*os.File\<close> returns an error and writes
  nothing; the renderer ignores the error.
\<close>

definition io_Write :: "writer \<Rightarrow> out_item \<Rightarrow> world \<Rightarrow> world" where
  "io_Write m item w =
     (case m of
        Stdout \<Rightarrow> w\<lparr>stdout := stdout w @ [item]\<rparr>
      | FileWriter (OpenFile path) \<Rightarrow>
          w\<lparr>files := (files w)(path \<mapsto> (case files w path of None \<Rightarrow> [] | Some c \<Rightarrow> c) @ [item])\<rparr>
      | FileWriter NilFile \<Rightarrow> w)"

definition render :: "rendering \<Rightarrow> table_writer \<Rightarrow> world \<Rightarrow> world" where
  "render r t w =
     (case tw_outputMirror t of
        None \<Rightarrow> w
      | Some m \<Rightarrow> io_Write m (Rendered r (tw_header t) (tw_rows t)) w)"

definition generateReport ::
  "(string \<times> Result list) list \<Rightarrow> string \<Rightarrow> string \<Rightarrow> world \<Rightarrow> world" where
  "generateReport results format outputFile w =
     (let w1 = fmt_Println ''Generating report'' w;
          t = reportTable results;
          (t', w2) =
            (if outputFile \<noteq> []
             then (case os_Create outputFile w1 of
                     ((f, err), w') \<Rightarrow>
                       (SetOutputMirror (FileWriter f) t,
                        (case err of
                           Some e \<Rightarrow> log_Error (''Error creating file: '' @ e) w'
                         | None \<Rightarrow> w')))
             else (t, w1))
      in if format = ''csv'' then render RenderCSV t' w2
         else if format = ''tsv'' then render RenderTSV t' w2
         else if format = ''table'' then render RenderTable t' w2
         else w2)"

text \<open>
  The rendered report that generateReport writes for a map of results and a format, and
  a world in which nothing has been written yet.
\<close>

definition formatRendering :: "string \<Rightarrow> rendering" where
  "formatRendering format =
     (if format = ''csv'' then RenderCSV else if format = ''tsv'' then RenderTSV
      else RenderTable)"

definition reportOutput :: "(string \<times> Result list) list \<Rightarrow> string \<Rightarrow> out_item" where
  "reportOutput results format =
     Rendered (formatRendering format) reportHeader (tw_rows (reportTable results))"

definition initialWorld :: "(string \<Rightarrow> bool) \<Rightarrow> world" where
  "initialWorld ok = \<lparr>stdout = [], files = (\<lambda>path. None), logfile = [], creatable = ok\<rparr>"

section \<open>Resource creation\<close>

text \<open>
  \<^verbatim>\<open>createResources\<close> looks for the profile named \<^verbatim>\<open>admin\<close> among the loaded profiles
  (given in the order the range statement visits them) and runs the creators selected by
  the flags. What each creator's pool returns depends on the remote service; it is a
  parameter. Beside the map the model returns the creators that were invoked, in order:
  tasks are submitted by the creators only. A nil map is \<^term>\<open>None\<close>.
\<close>

record Profile =
  Name :: string
  ApiKey :: string
  SecretKey :: string

record flags =
  domainFlag :: bool
  limitsFlag :: bool
  networkFlag :: bool
  vmFlag :: bool
  volumeFlag :: bool

record creators =
  createDomains :: "Result list"
  updateLimits :: "Result list"
  createNetwork :: "Result list"
  createVms :: "Result list"
  createVolumes :: "Result list"

definition runCreator ::
  "bool \<Rightarrow> string \<Rightarrow> Result list \<Rightarrow> string list \<times> (string \<times> Result list) list
     \<Rightarrow> string list \<times> (string \<times> Result list) list" where
  "runCreator flag category outcomes st =
     (if flag then (fst st @ [category], AList.update category outcomes (snd st)) else st)"

definition createResources_admin ::
  "flags \<Rightarrow> creators \<Rightarrow> string list \<times> (string \<times> Result list) list" where
  "createResources_admin fl cr =
     runCreator (volumeFlag fl) ''volume'' (createVolumes cr)
       (runCreator (vmFlag fl) ''vm'' (createVms cr)
         (runCreator (networkFlag fl) ''network'' (createNetwork cr)
           (runCreator (limitsFlag fl) ''limits'' (updateLimits cr)
             (runCreator (domainFlag fl) ''domain'' (createDomains cr) ([], [])))))"

fun createResources ::
  "flags \<Rightarrow> creators \<Rightarrow> (int \<times> Profile) list
     \<Rightarrow> string list \<times> (string \<times> Result list) list option" where
  "createResources fl cr [] = ([], None)"
| "createResources fl cr (p # ps) =
     (if Name (snd p) = ''admin''
      then (fst (createResources_admin fl cr), Some (snd (createResources_admin fl cr)))
      else createResources fl cr ps)"

text \<open>Ranging over a nil map visits no entry.\<close>

definition mapEntries :: "(string \<times> Result list) list option \<Rightarrow> (string \<times> Result list) list" where
  "mapEntries m = (case m of None \<Rightarrow> [] | Some entries \<Rightarrow> entries)"

section \<open>Submission loops\<close>

lemma runLoop_counts:
  assumes "\<And>s x. x \<in> set xs \<Longrightarrow> \<exists>s'. body s x = Inr s' \<and> submitted s' = submitted s + k"
  shows "\<exists>s'. runLoop body st xs = Inr s' \<and> submitted s' = submitted st + k * length xs"
  using assms
proof (induction xs arbitrary: st)
  case Nil
  then show ?case by simp
next
  case (Cons x xs)
  from Cons.prems [of x st] obtain s1
    where s1: "body st x = Inr s1" "submitted s1 = submitted st + k"
    by auto
  from Cons.IH [of s1] Cons.prems obtain s2
    where "runLoop body s1 xs = Inr s2" "submitted s2 = submitted s1 + k * length xs"
    by auto
  with s1 show ?case by simp
qed

lemma progressMarker_pos: "0 < count \<Longrightarrow> 0 < progressMarker count"
  by (simp add: progressMarker_def)

lemma submitTask_ok:
  "marker \<noteq> 0 \<Longrightarrow> \<exists>s'. submitTask p marker st = Inr s' \<and> submitted s' = submitted st + 1"
  by (simp add: submitTask_def go_rem_def)

lemma createDomains_submit_ok:
  "\<exists>st. createDomains_submit count = Inr st \<and> submitted st = nat count"
proof (cases "0 < count")
  case True
  then have m: "progressMarker count \<noteq> 0"
    using progressMarker_pos [of count] by simp
  have "\<exists>s'. runLoop (\<lambda>st i. submitTask (i + 1) (progressMarker count) st)
          \<lparr>logged = [], submitted = 0\<rparr> (map int [0..<nat count]) = Inr s'
        \<and> submitted s' = submitted \<lparr>logged = [], submitted = 0\<rparr>
             + 1 * length (map int [0..<nat count])"
    by (rule runLoop_counts) (use m submitTask_ok in blast)
  then show ?thesis by (simp add: createDomains_submit_def)
next
  case False
  then show ?thesis by (simp add: createDomains_submit_def)
qed

lemma int64_in_range: "- (2 ^ 63) \<le> x \<Longrightarrow> x < 2 ^ 63 \<Longrightarrow> int64 x = x"
  by (simp add: int64_def)

lemma createVms_submit_ok:
  assumes "int numNetworks * numVmPerNetwork < 2 ^ 63"
  shows "\<exists>st. createVms_submit numNetworks numVmPerNetwork = Inr st
     \<and> submitted st = numNetworks * nat numVmPerNetwork"
proof (cases "0 < numNetworks \<and> 0 < numVmPerNetwork")
  case True
  then have "0 < int numNetworks * numVmPerNetwork" by simp
  with assms have "int64 (int numNetworks * numVmPerNetwork) = int numNetworks * numVmPerNetwork"
    and "0 < int numNetworks * numVmPerNetwork"
    by (simp_all add: int64_in_range)
  then have m: "progressMarker (int64 (int numNetworks * numVmPerNetwork)) \<noteq> 0"
    using progressMarker_pos [of "int numNetworks * numVmPerNetwork"] by simp
  let ?M = "progressMarker (int64 (int numNetworks * numVmPerNetwork))"
  let ?js = "map int [1..<Suc (nat numVmPerNetwork)]"
  have inner: "\<exists>s'. runLoop (\<lambda>st' j. submitTask (int64 (int64 (i * j) + j)) ?M st') s ?js = Inr s'
        \<and> submitted s' = submitted s + nat numVmPerNetwork" for s i
  proof -
    have "\<exists>s'. runLoop (\<lambda>st' j. submitTask (int64 (int64 (i * j) + j)) ?M st') s ?js = Inr s'
        \<and> submitted s' = submitted s + 1 * length ?js"
      by (rule runLoop_counts) (use m submitTask_ok in blast)
    then show ?thesis by (simp del: upt_Suc)
  qed
  have "\<exists>s'. runLoop (\<lambda>st i.
            runLoop (\<lambda>st' j. submitTask (int64 (int64 (i * j) + j)) ?M st') st ?js)
          \<lparr>logged = [], submitted = 0\<rparr> (map int [0..<numNetworks]) = Inr s'
        \<and> submitted s' = submitted \<lparr>logged = [], submitted = 0\<rparr>
             + nat numVmPerNetwork * length (map int [0..<numNetworks])"
    by (rule runLoop_counts) (use inner in blast)
  then show ?thesis by (simp add: createVms_submit_def mult.commute del: upt_Suc)
next
  case False
  then consider "numNetworks = 0" | "numVmPerNetwork \<le> 0" by fastforce
  then show ?thesis
  proof cases
    case 1
    then show ?thesis by (simp add: createVms_submit_def)
  next
    case 2
    then have js: "map int [1..<Suc (nat numVmPerNetwork)] = []" by simp
    have "\<exists>s'. runLoop (\<lambda>st i. runLoop (\<lambda>st' j. submitTask (int64 (int64 (i * j) + j))
              (progressMarker (int64 (int numNetworks * numVmPerNetwork))) st') st [])
          \<lparr>logged = [], submitted = 0\<rparr> (map int [0..<numNetworks]) = Inr s'
        \<and> submitted s' = submitted \<lparr>logged = [], submitted = 0\<rparr>
             + 0 * length (map int [0..<numNetworks])"
      by (rule runLoop_counts) simp
    with 2 show ?thesis by (simp add: createVms_submit_def js del: upt_Suc)
  qed
qed

text \<open>
  When the product of the number of networks and the machines per network wraps around
  to zero, the interval is zero and the first remainder of the loop panics.
\<close>

lemma submitTask_marker_zero: "submitTask progress 0 st = Inl IntegerDivideByZero"
  by (simp add: submitTask_def go_rem_def)

lemma createVms_submit_wrapped_product:
  assumes "0 < numNetworks" and "0 < numVmPerNetwork"
    and "progressMarker (int64 (int numNetworks * numVmPerNetwork)) = 0"
  shows "createVms_submit numNetworks numVmPerNetwork = Inl IntegerDivideByZero"
proof -
  from assms(1) have outer: "[0..<numNetworks] = 0 # [Suc 0..<numNetworks]"
    by (rule upt_conv_Cons)
  from assms(2) have "Suc 0 < Suc (nat numVmPerNetwork)" by simp
  then have inner: "[Suc 0..<Suc (nat numVmPerNetwork)] =
      Suc 0 # [Suc (Suc 0)..<Suc (nat numVmPerNetwork)]"
    by (rule upt_conv_Cons)
  show ?thesis
    unfolding createVms_submit_def assms(3) One_nat_def outer inner
    by (simp add: submitTask_marker_zero del: upt_Suc)
qed

lemma createVms_submit_overflow:
  "createVms_submit 4 (2 ^ 62) = Inl IntegerDivideByZero"
  by (rule createVms_submit_wrapped_product) (simp_all add: int64_def progressMarker_def)

text \<open>
  The loop of createDomains logs at exactly the multiples of the interval: line \<open>k\<close> is
  logged at the \<open>k\<close>-th submission and prints \<open>k\<close>.
\<close>

lemma runLoop_append:
  "runLoop body st (xs @ ys) =
     (case runLoop body st xs of Inl e \<Rightarrow> Inl e | Inr st' \<Rightarrow> runLoop body st' ys)"
  by (induction xs arbitrary: st) (auto split: sum.splits)

lemma go_rem_positive: "0 < a \<Longrightarrow> 0 < b \<Longrightarrow> go_rem a b = Inr (a mod b)"
  by (simp add: go_rem_def)

lemma submitTask_next:
  assumes "0 < marker"
  shows "submitTask (int n + 1) marker \<lparr>logged = l, submitted = n\<rparr> =
     Inr \<lparr>logged = (if marker dvd int (Suc n) then l @ [(Suc n, int (Suc n))] else l),
          submitted = Suc n\<rparr>"
proof -
  have r: "go_rem (int n + 1) marker = Inr ((int n + 1) mod marker)"
    using assms by (intro go_rem_positive) simp_all
  have e: "int (Suc n) = int n + 1" by simp
  show ?thesis
    unfolding submitTask_def r e by (simp add: dvd_eq_mod_eq_0)
qed

lemma createDomains_loop:
  assumes "0 < marker"
  shows "runLoop (\<lambda>st i. submitTask (i + 1) marker st) \<lparr>logged = [], submitted = 0\<rparr>
           (map int [0..<n]) =
         Inr \<lparr>logged = map (\<lambda>k. (k, int k)) (filter (\<lambda>k. marker dvd int k) [1..<Suc n]),
              submitted = n\<rparr>"
proof (induction n)
  case 0
  then show ?case by simp
next
  case (Suc n)
  have u: "[1..<Suc (Suc n)] = [1..<Suc n] @ [Suc n]" by simp
  show ?case
    unfolding upt_Suc_append [OF le0] map_append runLoop_append Suc.IH u filter_append
    by (simp add: submitTask_next [OF assms] del: upt_Suc of_nat_Suc)
qed

lemma createDomains_logs_multiples:
  assumes "0 < count"
  shows "createDomains_submit count =
     Inr \<lparr>logged = map (\<lambda>k. (k, int k))
                     (filter (\<lambda>k. progressMarker count dvd int k) [1..<Suc (nat count)]),
          submitted = nat count\<rparr>"
  unfolding createDomains_submit_def
  by (rule createDomains_loop) (use assms in \<open>simp add: progressMarker_def\<close>)

text \<open>
  C7. With 47 tasks the interval is 5, and the submission loop of createDomains logs
  exactly nine progress lines, at the submission indices 5, 10, ..., 45; nothing is logged
  at index 47, and all 47 tasks are submitted.
\<close>

theorem createDomains_progress_47:
  "progressMarker 47 = 5 \<and>
   createDomains_submit 47 =
     Inr \<lparr>logged = [(5, 5), (10, 10), (15, 15), (20, 20), (25, 25), (30, 30), (35, 35),
                    (40, 40), (45, 45)],
          submitted = 47\<rparr>"
  by code_simp

text \<open>
  C8, as amended. The interval is the plain ceiling of N / 10, with no lower bound of one:
  it is 0 for N = 0 and agrees with max(1, ceil(N / 10)) for every N of at least one. A
  count of zero is tolerated all the same, because the remainder is only taken inside the
  submission loop: the loop of createDomains runs to its end without a division by zero
  and submits every task, and so does the loop of createVms whenever the product of the
  number of networks and the machines per network stays inside the 64-bit range.
\<close>

theorem progress_interval_without_guard:
  "0 \<le> count \<Longrightarrow>
     progressMarker count = (if count = 0 then 0 else max 1 \<lceil>real_of_int count / 10\<rceil>)
     \<and> (\<exists>st. createDomains_submit count = Inr st \<and> submitted st = nat count)
     \<and> (int numNetworks * numVmPerNetwork < 2 ^ 63 \<longrightarrow>
          (\<exists>st. createVms_submit numNetworks numVmPerNetwork = Inr st
            \<and> submitted st = numNetworks * nat numVmPerNetwork))"
  using createDomains_submit_ok [of count] createVms_submit_ok [of numNetworks numVmPerNetwork]
    progressMarker_pos [of count]
  by (auto simp: progressMarker_def)

theorem progress_interval_without_guard_witness:
  "progressMarker 0 = 0
     \<and> (\<exists>st. createDomains_submit 0 = Inr st \<and> submitted st = 0)
     \<and> (\<exists>st. createVms_submit 2 6 = Inr st \<and> submitted st = 12)"
  using progress_interval_without_guard [of 0 2 6] by simp

theorem progress_interval_counterexample:
  "progressMarker 0 \<noteq> max 1 \<lceil>real_of_int 0 / 10\<rceil>"
  by (simp add: progressMarker_def)

text \<open>
  C9. In createVms, with two networks and six machines per network (twelve tasks,
  interval 2), the first network logs at the submission indices 2, 4 and 6, but the second
  network logs at every one of its submissions, 7 to 12, printing 2, 4, ..., 12: lines are
  logged at the indices 7, 9 and 11, which are no multiples of the interval.
\<close>

theorem createVms_progress_2_networks_6_vms:
  "progressMarker (2 * 6) = 2 \<and>
   createVms_submit 2 6 =
     Inr \<lparr>logged = [(2, 2), (4, 4), (6, 6), (7, 2), (8, 4), (9, 6), (10, 8), (11, 10),
                    (12, 12)],
          submitted = 12\<rparr>"
  by code_simp

section \<open>Samples\<close>

lemma getSamples_foldl:
  "foldl getSamples_iter (a, s, f) results =
     (a @ map (\<lambda>r. round3 (Duration r)) results,
      s @ map (\<lambda>r. round3 (Duration r)) (filter Success results),
      f @ map (\<lambda>r. round3 (Duration r)) (filter (\<lambda>r. \<not> Success r) results))"
  by (induction results arbitrary: a s f) (simp_all add: getSamples_iter_def Let_def)

lemma getSamples_eq:
  "getSamples results =
     (map (\<lambda>r. round3 (Duration r)) results,
      map (\<lambda>r. round3 (Duration r)) (filter Success results),
      map (\<lambda>r. round3 (Duration r)) (filter (\<lambda>r. \<not> Success r) results))"
  by (simp add: getSamples_def getSamples_foldl)

lemma round3_decimals: "threeDecimals (round3 x)"
  by (simp add: threeDecimals_def round3_def math_Round_def)

text \<open>
  C2. getSamples splits the results of a category into three samples: the sample of all
  durations is as long as the successful and the failed sample together; every sample
  holds the durations rounded to three decimals, in the order of the results; a result's
  duration is in the successful sample when its Success flag is set and in the failed
  sample otherwise.
\<close>

theorem getSamples_partition:
  "case getSamples results of (allS, succS, failS) \<Rightarrow>
      length allS = length succS + length failS
    \<and> allS = map (\<lambda>r. round3 (Duration r)) results
    \<and> succS = map (\<lambda>r. round3 (Duration r)) (filter Success results)
    \<and> failS = map (\<lambda>r. round3 (Duration r)) (filter (\<lambda>r. \<not> Success r) results)
    \<and> list_all threeDecimals allS"
proof -
  have "length results =
      length (filter Success results) + length (filter (\<lambda>r. \<not> Success r) results)"
    using sum_length_filter_compl [of Success results] by simp
  moreover have "list_all threeDecimals (map (\<lambda>r. round3 (Duration r)) results)"
    by (simp add: list_all_iff round3_decimals)
  ultimately show ?thesis
    unfolding getSamples_eq by simp
qed

theorem getSamples_partition_witness:
  "getSamples [\<lparr>Success = True, Duration = 501 / 1000\<rparr>,
               \<lparr>Success = True, Duration = 4994 / 10000\<rparr>,
               \<lparr>Success = False, Duration = 12 / 10\<rparr>]
     = ([501 / 1000, 499 / 1000, 1200 / 1000], [501 / 1000, 499 / 1000], [1200 / 1000])
   \<and> list_all threeDecimals [501 / 1000, 499 / 1000, 1200 / 1000]"
proof -
  have e: "getSamples [\<lparr>Success = True, Duration = 501 / 1000\<rparr>,
               \<lparr>Success = True, Duration = 4994 / 10000\<rparr>,
               \<lparr>Success = False, Duration = 12 / 10\<rparr>]
     = ([501 / 1000, 499 / 1000, 1200 / 1000], [501 / 1000, 499 / 1000], [1200 / 1000])"
    by code_simp
  show ?thesis
    using getSamples_partition [of "[\<lparr>Success = True, Duration = 501 / 1000\<rparr>,
               \<lparr>Success = True, Duration = 4994 / 10000\<rparr>,
               \<lparr>Success = False, Duration = 12 / 10\<rparr>]"]
    unfolding e by simp
qed

section \<open>Rows of the report\<close>

lemma generateReport_iter_rows:
  "generateReport_iter t (key, result) = t\<lparr>tw_rows := tw_rows t @ categoryRows key result\<rparr>"
  by (cases "getSamples result")
     (simp add: generateReport_iter_def categoryRows_def AppendRow_def Let_def)

lemma foldl_generateReport_iter:
  "foldl generateReport_iter t results =
     t\<lparr>tw_rows := tw_rows t @ concat (map (\<lambda>(key, result). categoryRows key result) results)\<rparr>"
proof (induction results arbitrary: t)
  case Nil
  then show ?case by simp
next
  case (Cons e es)
  obtain key result where e: "e = (key, result)" by (cases e)
  show ?case by (simp add: Cons.IH e generateReport_iter_rows)
qed

lemma reportTable_rows:
  "tw_rows (reportTable results) =
     concat (map (\<lambda>(key, result). categoryRows key result) results)"
  by (simp add: reportTable_def foldl_generateReport_iter AppendHeader_def SetOutputMirror_def
      table_NewWriter_def)

lemma reportTable_header: "tw_header (reportTable results) = reportHeader"
  by (simp add: reportTable_def foldl_generateReport_iter AppendHeader_def SetOutputMirror_def
      table_NewWriter_def)

lemma reportTable_mirror: "tw_outputMirror (reportTable results) = Some Stdout"
  by (simp add: reportTable_def foldl_generateReport_iter AppendHeader_def SetOutputMirror_def
      table_NewWriter_def)

lemma row_key_getRowFromSample: "row_key (getRowFromSample key sample) = key"
  by (simp add: getRowFromSample_def)

lemma row_count_getRowFromSample: "row_count (getRowFromSample key sample) = length sample"
  by (simp add: getRowFromSample_def)

lemma failed_sample_empty:
  "snd (snd (getSamples result)) = [] \<longleftrightarrow> list_all Success result"
  by (simp add: getSamples_eq list_all_iff filter_empty_conv)

lemma reportTable_row_labels:
  "map row_key (tw_rows (reportTable results)) =
     concat (map (\<lambda>(key, result).
        if snd (snd (getSamples result)) = [] then [key @ '' - All'']
        else [key @ '' - All'', key @ '' - Successful'', key @ '' - Failed'']) results)"
proof -
  have "map row_key (categoryRows key result) =
      (if snd (snd (getSamples result)) = [] then [key @ '' - All'']
       else [key @ '' - All'', key @ '' - Successful'', key @ '' - Failed''])" for key result
    by (simp add: categoryRows_def row_key_getRowFromSample)
  then show ?thesis
    unfolding reportTable_rows by (induction results) (auto simp: case_prod_beta)
qed

lemma failed_sample_empty_all:
  "list_all (\<lambda>(key, result).
      (snd (snd (getSamples result)) = []) = list_all Success result) results"
  by (simp add: list_all_iff failed_sample_empty case_prod_beta)

lemma categoryRows_count_zero:
  "r \<in> set (categoryRows key result) \<and> row_count r = 0 \<longleftrightarrow>
     (result = [] \<and> r = getRowFromSample (key @ '' - All'') [])
   \<or> (result \<noteq> [] \<and> list_all (\<lambda>x. \<not> Success x) result
        \<and> r = getRowFromSample (key @ '' - Successful'') [])"
proof (cases "list_all Success result")
  case True
  then have f: "filter (\<lambda>x. \<not> Success x) result = []"
    by (simp add: list_all_iff filter_empty_conv)
  from True have n: "result \<noteq> [] \<Longrightarrow> \<not> list_all (\<lambda>x. \<not> Success x) result"
    by (cases result) auto
  show ?thesis using n
    by (auto simp: categoryRows_def getSamples_eq f row_count_getRowFromSample)
next
  case False
  then have f: "filter (\<lambda>x. \<not> Success x) result \<noteq> []" and ne: "result \<noteq> []"
    by (auto simp: list_all_iff filter_empty_conv)
  have s: "filter Success result = [] \<longleftrightarrow> list_all (\<lambda>x. \<not> Success x) result"
    by (simp add: list_all_iff filter_empty_conv)
  show ?thesis using f ne s
    by (auto simp: categoryRows_def getSamples_eq row_count_getRowFromSample)
qed

lemma reportTable_single:
  "tw_rows (reportTable [(key, result)]) = categoryRows key result"
  by (simp add: reportTable_rows)

text \<open>
  C4, as amended. The only emptiness check of generateReport is the one on the failed
  sample: a "Failed" row is never computed from an empty sample. The "All" row is
  computed without a check, so a category that has no results contributes a row computed
  from the empty sample. The rows of the report are the rows of its categories, one
  category after the other.
\<close>

theorem generateReport_guards_failed_sample:
  "tw_rows (reportTable results) =
      concat (map (\<lambda>entry. tw_rows (reportTable [entry])) results)
   \<and> (result = [] \<longrightarrow>
        tw_rows (reportTable [(key, result)]) = [getRowFromSample (key @ '' - All'') []])
   \<and> (\<forall>r \<in> set (tw_rows (reportTable [(key, result)])).
        row_key r = key @ '' - Failed'' \<longrightarrow> 0 < row_count r)"
proof -
  have "tw_rows (reportTable results) =
      concat (map (\<lambda>entry. tw_rows (reportTable [entry])) results)"
    unfolding reportTable_rows by (induction results) auto
  moreover have "result = [] \<longrightarrow>
      tw_rows (reportTable [(key, result)]) = [getRowFromSample (key @ '' - All'') []]"
    by (simp add: reportTable_single categoryRows_def getSamples_eq)
  moreover have "\<forall>r \<in> set (tw_rows (reportTable [(key, result)])).
      row_key r = key @ '' - Failed'' \<longrightarrow> 0 < row_count r"
    by (auto simp: reportTable_single categoryRows_def row_key_getRowFromSample
        row_count_getRowFromSample)
  ultimately show ?thesis by blast
qed

theorem generateReport_guards_failed_sample_witness:
  "tw_rows (reportTable [(''domain'', [])]) = [getRowFromSample ''domain - All'' []]
   \<and> row_key (tw_rows (reportTable [(''vm'', [\<lparr>Success = False, Duration = 2\<rparr>])]) ! 2)
       = ''vm - Failed''
   \<and> 0 < row_count
       (tw_rows (reportTable [(''vm'', [\<lparr>Success = False, Duration = 2\<rparr>])]) ! 2)"
proof -
  have e: "tw_rows (reportTable [(''vm'', [\<lparr>Success = False, Duration = 2\<rparr>])]) =
       [getRowFromSample ''vm - All'' [2],
        getRowFromSample ''vm - Successful'' [],
        getRowFromSample ''vm - Failed'' [2]]"
    by code_simp
  show ?thesis
    using generateReport_guards_failed_sample [of "[]" "[]" "''domain''"]
      generateReport_guards_failed_sample
        [of "[]" "[\<lparr>Success = False, Duration = 2\<rparr>]" "''vm''"]
    by (simp add: e row_key_getRowFromSample)
qed

theorem reducer_on_empty_sample_counterexample:
  "tw_rows (reportTable [(''domain'', [])]) = [getRowFromSample ''domain - All'' []]
   \<and> tw_rows (reportTable [(''domain'', [\<lparr>Success = False, Duration = 12 / 10\<rparr>])]) =
       [getRowFromSample ''domain - All'' [6 / 5],
        getRowFromSample ''domain - Successful'' [],
        getRowFromSample ''domain - Failed'' [6 / 5]]
   \<and> getRowFromSample ''domain - All'' [] =
       \<lparr>row_key = ''domain - All'', row_count = 0, row_min = None, row_max = None,
        row_mean = None, row_median = None, row_percentile90 = None,
        row_percentile95 = None, row_percentile99 = None\<rparr>"
  by code_simp

section \<open>Order of the statistics\<close>

lemma math_Round_mono: "x \<le> y \<Longrightarrow> math_Round x \<le> math_Round y"
proof -
  assume xy: "x \<le> y"
  consider "y < 0" | "x < 0" "0 \<le> y" | "0 \<le> x" by linarith
  then show ?thesis
  proof cases
    case 1
    with xy have "\<lceil>x - 1 / 2\<rceil> \<le> \<lceil>y - 1 / 2\<rceil>" by (intro ceiling_mono) simp
    with 1 xy show ?thesis by (simp add: math_Round_def)
  next
    case 2
    then have "\<lceil>x - 1 / 2\<rceil> \<le> 0" by (simp add: ceiling_le_iff)
    moreover from 2 have "0 \<le> \<lfloor>y + 1 / 2\<rfloor>" by (simp add: le_floor_iff)
    ultimately have "\<lceil>x - 1 / 2\<rceil> \<le> \<lfloor>y + 1 / 2\<rfloor>" by linarith
    with 2 show ?thesis by (simp add: math_Round_def)
  next
    case 3
    with xy have "\<lfloor>x + 1 / 2\<rfloor> \<le> \<lfloor>y + 1 / 2\<rfloor>" by (intro floor_mono) simp
    with 3 xy show ?thesis by (simp add: math_Round_def)
  qed
qed

lemma round3_mono: "x \<le> y \<Longrightarrow> round3 x \<le> round3 y"
  using math_Round_mono [of "x * 1000" "y * 1000"]
  by (simp add: round3_def divide_right_mono)

lemma stats_Min_eq: "input \<noteq> [] \<Longrightarrow> stats_Min input = Some (Min (set input))"
  by (cases input) (simp_all add: stats_Min_def flip: Min.set_eq_fold)

lemma stats_Max_eq: "input \<noteq> [] \<Longrightarrow> stats_Max input = Some (Max (set input))"
  by (cases input) (simp_all add: stats_Max_def flip: Max.set_eq_fold)

lemma sorted_nth_bounds:
  assumes "i < length input"
  shows "Min (set input) \<le> sort input ! i" and "sort input ! i \<le> Max (set input)"
proof -
  from assms have "sort input ! i \<in> set (sort input)" by (intro nth_mem) simp
  then have m: "sort input ! i \<in> set input" by simp
  from m show "Min (set input) \<le> sort input ! i" by (intro Min_le) simp_all
  from m show "sort input ! i \<le> Max (set input)" by (intro Max_ge) simp_all
qed

lemma floor_rank:
  assumes "1 \<le> x" and "x \<le> real n"
  shows "1 \<le> nat \<lfloor>x\<rfloor>" and "nat \<lfloor>x\<rfloor> \<le> n"
    and "x \<noteq> of_int \<lfloor>x\<rfloor> \<Longrightarrow> nat \<lfloor>x\<rfloor> < n"
proof -
  from assms have f1: "1 \<le> \<lfloor>x\<rfloor>" by (simp add: le_floor_iff)
  then show "1 \<le> nat \<lfloor>x\<rfloor>" by linarith
  from assms have "\<lfloor>x\<rfloor> \<le> int n" by (simp add: floor_le_iff)
  then show le: "nat \<lfloor>x\<rfloor> \<le> n" by simp
  assume nw: "x \<noteq> of_int \<lfloor>x\<rfloor>"
  show "nat \<lfloor>x\<rfloor> < n"
  proof (rule ccontr)
    assume "\<not> nat \<lfloor>x\<rfloor> < n"
    with le have "nat \<lfloor>x\<rfloor> = n" by simp
    with f1 have "\<lfloor>x\<rfloor> = int n" by linarith
    then have "real n \<le> x" using of_int_floor_le [of x] by simp
    with assms have "x = real n" by simp
    with nw show False by simp
  qed
qed

lemma rankValue_bounds:
  assumes "1 \<le> x" and "x \<le> real (length input)"
  shows "Min (set input) \<le> rankValue (sort input) x"
    and "rankValue (sort input) x \<le> Max (set input)"
proof -
  note r = floor_rank [OF assms]
  have a: "nat \<lfloor>x\<rfloor> - 1 < length input" using r(1,2) by simp
  note ba = sorted_nth_bounds [OF a]
  show "Min (set input) \<le> rankValue (sort input) x"
  proof (cases "x = of_int \<lfloor>x\<rfloor>")
    case True
    then show ?thesis using ba by (simp add: rankValue_def)
  next
    case False
    note bb = sorted_nth_bounds [OF r(3) [OF False]]
    from False ba bb show ?thesis by (simp add: rankValue_def)
  qed
  show "rankValue (sort input) x \<le> Max (set input)"
  proof (cases "x = of_int \<lfloor>x\<rfloor>")
    case True
    then show ?thesis using ba by (simp add: rankValue_def)
  next
    case False
    note bb = sorted_nth_bounds [OF r(3) [OF False]]
    from False ba bb show ?thesis by (simp add: rankValue_def)
  qed
qed

lemma rankValue_mono:
  assumes s: "sorted c" and x1: "1 \<le> x" and xy: "x \<le> y" and yn: "y \<le> real (length c)"
  shows "rankValue c x \<le> rankValue c y"
proof -
  let ?i = "nat \<lfloor>x\<rfloor>" and ?j = "nat \<lfloor>y\<rfloor>"
  from x1 xy yn have xn: "x \<le> real (length c)" and y1: "1 \<le> y" by simp_all
  note rx = floor_rank [OF x1 xn] and ry = floor_rank [OF y1 yn]
  from xy have ij: "?i \<le> ?j" by (intro nat_mono floor_mono)
  have low: "c ! (?j - 1) \<le> rankValue c y"
  proof (cases "y = of_int \<lfloor>y\<rfloor>")
    case True
    then show ?thesis by (simp add: rankValue_def)
  next
    case False
    from ry(3) [OF False] have "c ! (?j - 1) \<le> c ! ?j"
      by (intro sorted_nth_mono [OF s]) simp_all
    with False show ?thesis by (simp add: rankValue_def)
  qed
  show ?thesis
  proof (cases "?i < ?j")
    case True
    with ry(2) have il: "?i < length c" by linarith
    have "c ! (?i - 1) \<le> c ! ?i"
      using il by (intro sorted_nth_mono [OF s]) simp_all
    then have "rankValue c x \<le> c ! ?i" by (simp add: rankValue_def)
    also from True ry(1,2) have "c ! ?i \<le> c ! (?j - 1)"
      by (intro sorted_nth_mono [OF s]; linarith)
    also note low
    finally show ?thesis .
  next
    case False
    with ij have eq: "?i = ?j" by simp
    show ?thesis
    proof (cases "x = of_int \<lfloor>x\<rfloor>")
      case True
      then have "rankValue c x = c ! (?j - 1)" by (simp add: rankValue_def eq)
      with low show ?thesis by simp
    next
      case nw: False
      from rx(1) ry(1) eq have fe: "\<lfloor>x\<rfloor> = \<lfloor>y\<rfloor>"
        by (metis nat_eq_iff2 not_one_le_zero of_nat_0_le_iff)
      have "of_int \<lfloor>x\<rfloor> < x"
        by (metis nw of_int_floor_le order_le_less)
      with xy have "of_int \<lfloor>y\<rfloor> < y" by (simp add: fe)
      then have "y \<noteq> of_int \<lfloor>y\<rfloor>" by simp
      with nw show ?thesis by (simp add: rankValue_def fe)
    qed
  qed
qed

lemma stats_Percentile_eq:
  assumes "2 \<le> length input" and "0 < p" and "p \<le> 100"
    and "1 < p / 100 * real (length input)"
  shows "stats_Percentile input p =
     Some (rankValue (sort input) (p / 100 * real (length input)))"
proof -
  from assms(1) have "length input \<noteq> 0" and "length input \<noteq> 1" by auto
  with assms(2-4) show ?thesis
    by (simp add: stats_Percentile_def rankValue_def stats_Mean_def Let_def)
qed

lemma stats_Median_bounds:
  assumes "input \<noteq> []"
  shows "\<exists>m. stats_Median input = Some m \<and> Min (set input) \<le> m \<and> m \<le> Max (set input)"
proof -
  let ?l = "length input" and ?c = "sort input"
  from assms have l: "0 < ?l" by simp
  then have h: "?l div 2 < ?l" by simp
  have ne: "?c \<noteq> []" using assms by (metis length_0_conv length_sort)
  note bh = sorted_nth_bounds [OF h]
  show ?thesis
  proof (cases "?l mod 2 = 0")
    case True
    from l have "?l div 2 - 1 < ?l" by arith
    note bl = sorted_nth_bounds [OF this]
    have "stats_Median input = Some ((?c ! (?l div 2 - 1) + ?c ! (?l div 2)) / 2)"
      using True ne by (simp add: stats_Median_def stats_Mean_def Let_def)
    moreover have "Min (set input) \<le> (?c ! (?l div 2 - 1) + ?c ! (?l div 2)) / 2"
      using bl(1) bh(1) by simp
    moreover have "(?c ! (?l div 2 - 1) + ?c ! (?l div 2)) / 2 \<le> Max (set input)"
      using bl(2) bh(2) by simp
    ultimately show ?thesis by blast
  next
    case False
    with ne bh show ?thesis
      by (simp add: stats_Median_def Let_def)
  qed
qed


lemma percentiles_ordered:
  assumes "2 \<le> length input"
  shows "\<exists>p90 p95 p99.
      stats_Percentile input 90 = Some p90 \<and> stats_Percentile input 95 = Some p95
    \<and> stats_Percentile input 99 = Some p99
    \<and> Min (set input) \<le> p90 \<and> p90 \<le> p95 \<and> p95 \<le> p99 \<and> p99 \<le> Max (set input)"
proof -
  let ?n = "real (length input)" and ?c = "sort input"
  from assms have n2: "2 \<le> ?n" by simp
  then have i90: "1 < 90 / 100 * ?n" and i95: "1 < 95 / 100 * ?n" and i99: "1 < 99 / 100 * ?n"
    by simp_all
  have e90: "stats_Percentile input 90 = Some (rankValue ?c (90 / 100 * ?n))"
    by (rule stats_Percentile_eq [OF assms _ _ i90]) simp_all
  have e95: "stats_Percentile input 95 = Some (rankValue ?c (95 / 100 * ?n))"
    by (rule stats_Percentile_eq [OF assms _ _ i95]) simp_all
  have e99: "stats_Percentile input 99 = Some (rankValue ?c (99 / 100 * ?n))"
    by (rule stats_Percentile_eq [OF assms _ _ i99]) simp_all
  have s: "sorted ?c" by simp
  have m1: "rankValue ?c (90 / 100 * ?n) \<le> rankValue ?c (95 / 100 * ?n)"
    using n2 by (intro rankValue_mono [OF s]) simp_all
  have m2: "rankValue ?c (95 / 100 * ?n) \<le> rankValue ?c (99 / 100 * ?n)"
    using n2 by (intro rankValue_mono [OF s]) simp_all
  have lo: "Min (set input) \<le> rankValue ?c (90 / 100 * ?n)"
    using n2 by (intro rankValue_bounds) simp_all
  have hi: "rankValue ?c (99 / 100 * ?n) \<le> Max (set input)"
    using n2 by (intro rankValue_bounds) simp_all
  from e90 e95 e99 m1 m2 lo hi show ?thesis by simp
qed

lemma percentiles_singleton:
  "stats_Percentile [x] p = Some x" "stats_Min [x] = Some x" "stats_Max [x] = Some x"
  "stats_Median [x] = Some x"
  by (simp_all add: stats_Percentile_def stats_Min_def stats_Max_def stats_Median_def Let_def)

text \<open>
  C6. For every non-empty sample the row computed by getRowFromSample carries a minimum,
  a maximum, a median and the three percentiles, and they are ordered:
  min \<le> p90 \<le> p95 \<le> p99 \<le> max and min \<le> median \<le> max.
\<close>

theorem getRowFromSample_ordered:
  assumes "sample \<noteq> []"
  shows "\<exists>mn mx md p90 p95 p99.
      row_min (getRowFromSample key sample) = Some mn
    \<and> row_max (getRowFromSample key sample) = Some mx
    \<and> row_median (getRowFromSample key sample) = Some md
    \<and> row_percentile90 (getRowFromSample key sample) = Some p90
    \<and> row_percentile95 (getRowFromSample key sample) = Some p95
    \<and> row_percentile99 (getRowFromSample key sample) = Some p99
    \<and> mn \<le> p90 \<and> p90 \<le> p95 \<and> p95 \<le> p99 \<and> p99 \<le> mx \<and> mn \<le> md \<and> md \<le> mx"
proof (cases "length sample = 1")
  case True
  then obtain x where "sample = [x]"
    by (cases sample) simp_all
  then show ?thesis
    by (simp add: getRowFromSample_def percentiles_singleton)
next
  case False
  moreover from assms have "length sample \<noteq> 0" by simp
  ultimately have "2 \<le> length sample" by linarith
  from percentiles_ordered [OF this] obtain p90 p95 p99 where
    p: "stats_Percentile sample 90 = Some p90" "stats_Percentile sample 95 = Some p95"
      "stats_Percentile sample 99 = Some p99"
    and o: "Min (set sample) \<le> p90" "p90 \<le> p95" "p95 \<le> p99" "p99 \<le> Max (set sample)"
    by blast
  from stats_Median_bounds [OF assms] obtain md where
    m: "stats_Median sample = Some md" and mo: "Min (set sample) \<le> md" "md \<le> Max (set sample)"
    by blast
  have "row_min (getRowFromSample key sample) = Some (round3 (Min (set sample)))"
    "row_max (getRowFromSample key sample) = Some (round3 (Max (set sample)))"
    "row_median (getRowFromSample key sample) = Some (round3 md)"
    "row_percentile90 (getRowFromSample key sample) = Some (round3 p90)"
    "row_percentile95 (getRowFromSample key sample) = Some (round3 p95)"
    "row_percentile99 (getRowFromSample key sample) = Some (round3 p99)"
    by (simp_all add: getRowFromSample_def stats_Min_eq [OF assms] stats_Max_eq [OF assms] p m)
  moreover have "round3 (Min (set sample)) \<le> round3 p90" "round3 p90 \<le> round3 p95"
    "round3 p95 \<le> round3 p99" "round3 p99 \<le> round3 (Max (set sample))"
    "round3 (Min (set sample)) \<le> round3 md" "round3 md \<le> round3 (Max (set sample))"
    using o mo by (simp_all add: round3_mono)
  ultimately show ?thesis by simp
qed

theorem getRowFromSample_ordered_witness:
  "getRowFromSample ''domain - All'' [501 / 1000, 499 / 1000, 12 / 10] =
     \<lparr>row_key = ''domain - All'', row_count = 3, row_min = Some (499 / 1000),
      row_max = Some (12 / 10), row_mean = Some (733 / 1000), row_median = Some (501 / 1000),
      row_percentile90 = Some (851 / 1000), row_percentile95 = Some (851 / 1000),
      row_percentile99 = Some (851 / 1000)\<rparr>
   \<and> (\<exists>mn mx md p90 p95 p99.
      row_min (getRowFromSample ''domain - All'' [501 / 1000, 499 / 1000, 12 / 10]) = Some mn
    \<and> row_max (getRowFromSample ''domain - All'' [501 / 1000, 499 / 1000, 12 / 10]) = Some mx
    \<and> row_median (getRowFromSample ''domain - All'' [501 / 1000, 499 / 1000, 12 / 10]) = Some md
    \<and> row_percentile90 (getRowFromSample ''domain - All'' [501 / 1000, 499 / 1000, 12 / 10]) = Some p90
    \<and> row_percentile95 (getRowFromSample ''domain - All'' [501 / 1000, 499 / 1000, 12 / 10]) = Some p95
    \<and> row_percentile99 (getRowFromSample ''domain - All'' [501 / 1000, 499 / 1000, 12 / 10]) = Some p99
    \<and> mn \<le> p90 \<and> p90 \<le> p95 \<and> p95 \<le> p99 \<and> p99 \<le> mx \<and> mn \<le> md \<and> md \<le> mx)"
proof -
  have e: "getRowFromSample ''domain - All'' [501 / 1000, 499 / 1000, 12 / 10] =
     \<lparr>row_key = ''domain - All'', row_count = 3, row_min = Some (499 / 1000),
      row_max = Some (12 / 10), row_mean = Some (733 / 1000), row_median = Some (501 / 1000),
      row_percentile90 = Some (851 / 1000), row_percentile95 = Some (851 / 1000),
      row_percentile99 = Some (851 / 1000)\<rparr>"
    by code_simp
  have ne: "[501 / 1000, 499 / 1000, 12 / 10 :: real] \<noteq> []" by simp
  from getRowFromSample_ordered [OF ne, of "''domain - All''"] e show ?thesis
    by blast
qed

section \<open>Resource creation\<close>

lemma runCreator_keys:
  "set (map fst (snd (runCreator flag category outcomes st))) =
     (if flag then {category} else {}) \<union> set (map fst (snd st))"
  by (simp add: runCreator_def dom_update)

lemma createResources_admin_keys:
  "set (map fst (snd (createResources_admin fl cr))) =
     (if domainFlag fl then {''domain''} else {}) \<union>
     (if limitsFlag fl then {''limits''} else {}) \<union>
     (if networkFlag fl then {''network''} else {}) \<union>
     (if vmFlag fl then {''vm''} else {}) \<union>
     (if volumeFlag fl then {''volume''} else {})"
  unfolding createResources_admin_def runCreator_keys by auto

lemma createResources_no_admin:
  "\<not> list_ex (\<lambda>p. Name (snd p) = ''admin'') profiles \<Longrightarrow>
     createResources fl cr profiles = ([], None)"
  by (induction profiles) auto

lemma createResources_with_admin:
  "list_ex (\<lambda>p. Name (snd p) = ''admin'') profiles \<Longrightarrow>
     createResources fl cr profiles =
       (fst (createResources_admin fl cr), Some (snd (createResources_admin fl cr)))"
  by (induction profiles) auto

lemma reportTable_no_entries: "tw_rows (reportTable []) = []"
  by (simp add: reportTable_def AppendHeader_def SetOutputMirror_def table_NewWriter_def)

text \<open>
  C10. When no loaded profile is named "admin", createResources invokes no creator (so
  no task is submitted) and returns the nil map, whatever the flags, and the report built
  from it has no row. When a profile named "admin" exists, a map is returned whose keys
  are exactly the categories whose flags are set.
\<close>

theorem createResources_admin_gate:
  "(\<not> list_ex (\<lambda>p. Name (snd p) = ''admin'') profiles \<longrightarrow>
      createResources fl cr profiles = ([], None)
      \<and> tw_rows (reportTable (mapEntries (snd (createResources fl cr profiles)))) = [])
   \<and> (list_ex (\<lambda>p. Name (snd p) = ''admin'') profiles \<longrightarrow>
      (\<exists>m. snd (createResources fl cr profiles) = Some m
         \<and> set (map fst m) =
             (if domainFlag fl then {''domain''} else {}) \<union>
             (if limitsFlag fl then {''limits''} else {}) \<union>
             (if networkFlag fl then {''network''} else {}) \<union>
             (if vmFlag fl then {''vm''} else {}) \<union>
             (if volumeFlag fl then {''volume''} else {})))"
  using createResources_no_admin [of profiles fl cr]
    createResources_with_admin [of profiles fl cr]
    createResources_admin_keys [of fl cr]
  by (auto simp: mapEntries_def reportTable_no_entries)

theorem createResources_admin_gate_witness:
  "createResources
      \<lparr>domainFlag = True, limitsFlag = True, networkFlag = True, vmFlag = True,
       volumeFlag = True\<rparr>
      \<lparr>createDomains = [\<lparr>Success = True, Duration = 1\<rparr>], updateLimits = [],
       createNetwork = [], createVms = [], createVolumes = []\<rparr>
      [(0, \<lparr>Name = ''user'', ApiKey = ''k'', SecretKey = ''s''\<rparr>)] = ([], None)
   \<and> (\<exists>m. snd (createResources
      \<lparr>domainFlag = True, limitsFlag = False, networkFlag = False, vmFlag = True,
       volumeFlag = False\<rparr>
      \<lparr>createDomains = [\<lparr>Success = True, Duration = 1\<rparr>], updateLimits = [],
       createNetwork = [], createVms = [], createVolumes = []\<rparr>
      [(0, \<lparr>Name = ''user'', ApiKey = ''k'', SecretKey = ''s''\<rparr>),
       (1, \<lparr>Name = ''admin'', ApiKey = ''k'', SecretKey = ''s''\<rparr>)]) = Some m
     \<and> set (map fst m) = {''domain'', ''vm''})"
  using createResources_admin_gate
      [of "[(0, \<lparr>Name = ''user'', ApiKey = ''k'', SecretKey = ''s''\<rparr>)]"
        "\<lparr>domainFlag = True, limitsFlag = True, networkFlag = True, vmFlag = True,
          volumeFlag = True\<rparr>"
        "\<lparr>createDomains = [\<lparr>Success = True, Duration = 1\<rparr>], updateLimits = [],
          createNetwork = [], createVms = [], createVolumes = []\<rparr>"]
    createResources_admin_gate
      [of "[(0, \<lparr>Name = ''user'', ApiKey = ''k'', SecretKey = ''s''\<rparr>),
            (1, \<lparr>Name = ''admin'', ApiKey = ''k'', SecretKey = ''s''\<rparr>)]"
        "\<lparr>domainFlag = True, limitsFlag = False, networkFlag = False, vmFlag = True,
          volumeFlag = False\<rparr>"
        "\<lparr>createDomains = [\<lparr>Success = True, Duration = 1\<rparr>], updateLimits = [],
          createNetwork = [], createVms = [], createVolumes = []\<rparr>"]
  by (simp add: insert_commute)

section \<open>Destination of the report\<close>

lemma render_stdout:
  "tw_outputMirror t = Some Stdout \<Longrightarrow>
     render r t w = w\<lparr>stdout := stdout w @ [Rendered r (tw_header t) (tw_rows t)]\<rparr>"
  by (simp add: render_def io_Write_def)

lemma generateReport_stdout:
  assumes "format \<in> {''csv'', ''tsv'', ''table''}" and "outputFile = []"
  shows "generateReport results format outputFile w =
     w\<lparr>stdout := stdout w @ [Line ''Generating report'', reportOutput results format]\<rparr>"
  using assms
  by (auto simp: generateReport_def Let_def fmt_Println_def render_stdout reportTable_mirror
      reportTable_header reportOutput_def formatRendering_def)

lemma generateReport_file:
  assumes "format \<in> {''csv'', ''tsv'', ''table''}" and "outputFile \<noteq> []"
    and "creatable w outputFile"
  shows "generateReport results format outputFile w =
     w\<lparr>stdout := stdout w @ [Line ''Generating report''],
       files := (files w)(outputFile \<mapsto> [reportOutput results format])\<rparr>"
  using assms
  by (auto simp: generateReport_def Let_def fmt_Println_def render_def io_Write_def
      os_Create_def SetOutputMirror_def reportTable_header reportOutput_def
      formatRendering_def)

lemma generateReport_create_fails:
  assumes "outputFile \<noteq> []" and "\<not> creatable w outputFile"
  shows "logfile (generateReport results format outputFile w) =
      logfile w @ [''Error creating file: cannot create file'']"
  using assms
  by (auto simp: generateReport_def Let_def fmt_Println_def render_def io_Write_def
      os_Create_def SetOutputMirror_def log_Error_def)


text \<open>
  C3. The report that generateReport renders, on standard output when no path is given
  and in the created file when a path is given, carries for every category, in the order
  the map is visited, the "All" row alone when the failed sample of the category is
  empty, and the "All", "Successful" and "Failed" rows, in this order, when it is not.
  The failed sample is empty exactly when every result of the category succeeded.
\<close>

theorem generateReport_row_labels:
  assumes "format \<in> {''csv'', ''tsv'', ''table''}"
  shows "map row_key (tw_rows (reportTable results)) =
       concat (map (\<lambda>(key, result).
          if snd (snd (getSamples result)) = [] then [key @ '' - All'']
          else [key @ '' - All'', key @ '' - Successful'', key @ '' - Failed'']) results)
   \<and> list_all (\<lambda>(key, result).
        (snd (snd (getSamples result)) = []) = list_all Success result) results
   \<and> (outputFile = [] \<longrightarrow>
        generateReport results format outputFile w =
          w\<lparr>stdout := stdout w @
              [Line ''Generating report'',
               Rendered (formatRendering format) reportHeader (tw_rows (reportTable results))]\<rparr>)
   \<and> (outputFile \<noteq> [] \<and> creatable w outputFile \<longrightarrow>
        generateReport results format outputFile w =
          w\<lparr>stdout := stdout w @ [Line ''Generating report''],
            files := (files w)(outputFile \<mapsto>
              [Rendered (formatRendering format) reportHeader
                 (tw_rows (reportTable results))])\<rparr>)"
  using reportTable_row_labels [of results] failed_sample_empty_all [of results]
    generateReport_stdout [OF assms, of outputFile results w]
    generateReport_file [OF assms, of outputFile w results]
  unfolding reportOutput_def by blast

theorem generateReport_row_labels_witness:
  "map row_key (tw_rows (reportTable
      [(''vm'', [\<lparr>Success = True, Duration = 1 / 2\<rparr>, \<lparr>Success = True, Duration = 1\<rparr>,
                 \<lparr>Success = True, Duration = 2\<rparr>, \<lparr>Success = True, Duration = 3\<rparr>,
                 \<lparr>Success = True, Duration = 4\<rparr>]),
       (''domain'', [\<lparr>Success = True, Duration = 501 / 1000\<rparr>,
                     \<lparr>Success = True, Duration = 499 / 1000\<rparr>,
                     \<lparr>Success = False, Duration = 6 / 5\<rparr>])]))
   = [''vm - All'', ''domain - All'', ''domain - Successful'', ''domain - Failed'']
   \<and> stdout (generateReport
      [(''vm'', [\<lparr>Success = True, Duration = 1 / 2\<rparr>, \<lparr>Success = True, Duration = 1\<rparr>,
                 \<lparr>Success = True, Duration = 2\<rparr>, \<lparr>Success = True, Duration = 3\<rparr>,
                 \<lparr>Success = True, Duration = 4\<rparr>]),
       (''domain'', [\<lparr>Success = True, Duration = 501 / 1000\<rparr>,
                     \<lparr>Success = True, Duration = 499 / 1000\<rparr>,
                     \<lparr>Success = False, Duration = 6 / 5\<rparr>])] ''csv'' []
      (initialWorld (\<lambda>path. path = ''report.csv''))) =
     [Line ''Generating report'',
      Rendered RenderCSV reportHeader (tw_rows (reportTable
      [(''vm'', [\<lparr>Success = True, Duration = 1 / 2\<rparr>, \<lparr>Success = True, Duration = 1\<rparr>,
                 \<lparr>Success = True, Duration = 2\<rparr>, \<lparr>Success = True, Duration = 3\<rparr>,
                 \<lparr>Success = True, Duration = 4\<rparr>]),
       (''domain'', [\<lparr>Success = True, Duration = 501 / 1000\<rparr>,
                     \<lparr>Success = True, Duration = 499 / 1000\<rparr>,
                     \<lparr>Success = False, Duration = 6 / 5\<rparr>])]))]
   \<and> files (generateReport
      [(''vm'', [\<lparr>Success = True, Duration = 1 / 2\<rparr>, \<lparr>Success = True, Duration = 1\<rparr>,
                 \<lparr>Success = True, Duration = 2\<rparr>, \<lparr>Success = True, Duration = 3\<rparr>,
                 \<lparr>Success = True, Duration = 4\<rparr>]),
       (''domain'', [\<lparr>Success = True, Duration = 501 / 1000\<rparr>,
                     \<lparr>Success = True, Duration = 499 / 1000\<rparr>,
                     \<lparr>Success = False, Duration = 6 / 5\<rparr>])] ''csv'' ''report.csv''
      (initialWorld (\<lambda>path. path = ''report.csv''))) ''report.csv'' =
     Some [Rendered RenderCSV reportHeader (tw_rows (reportTable
      [(''vm'', [\<lparr>Success = True, Duration = 1 / 2\<rparr>, \<lparr>Success = True, Duration = 1\<rparr>,
                 \<lparr>Success = True, Duration = 2\<rparr>, \<lparr>Success = True, Duration = 3\<rparr>,
                 \<lparr>Success = True, Duration = 4\<rparr>]),
       (''domain'', [\<lparr>Success = True, Duration = 501 / 1000\<rparr>,
                     \<lparr>Success = True, Duration = 499 / 1000\<rparr>,
                     \<lparr>Success = False, Duration = 6 / 5\<rparr>])]))]"
proof -
  have e: "snd (snd (getSamples [\<lparr>Success = True, Duration = 1 / 2\<rparr>, \<lparr>Success = True, Duration = 1\<rparr>,
                 \<lparr>Success = True, Duration = 2\<rparr>, \<lparr>Success = True, Duration = 3\<rparr>,
                 \<lparr>Success = True, Duration = 4\<rparr>])) = []"
    "snd (snd (getSamples [\<lparr>Success = True, Duration = 501 / 1000\<rparr>,
                     \<lparr>Success = True, Duration = 499 / 1000\<rparr>,
                     \<lparr>Success = False, Duration = 6 / 5\<rparr>])) \<noteq> []"
    by (simp_all add: getSamples_eq)
  show ?thesis
    using generateReport_row_labels [of "''csv''"
        "[(''vm'', [\<lparr>Success = True, Duration = 1 / 2\<rparr>, \<lparr>Success = True, Duration = 1\<rparr>,
                 \<lparr>Success = True, Duration = 2\<rparr>, \<lparr>Success = True, Duration = 3\<rparr>,
                 \<lparr>Success = True, Duration = 4\<rparr>]),
       (''domain'', [\<lparr>Success = True, Duration = 501 / 1000\<rparr>,
                     \<lparr>Success = True, Duration = 499 / 1000\<rparr>,
                     \<lparr>Success = False, Duration = 6 / 5\<rparr>])]" "[]"
        "(initialWorld (\<lambda>path. path = ''report.csv''))"]
      generateReport_row_labels [of "''csv''"
        "[(''vm'', [\<lparr>Success = True, Duration = 1 / 2\<rparr>, \<lparr>Success = True, Duration = 1\<rparr>,
                 \<lparr>Success = True, Duration = 2\<rparr>, \<lparr>Success = True, Duration = 3\<rparr>,
                 \<lparr>Success = True, Duration = 4\<rparr>]),
       (''domain'', [\<lparr>Success = True, Duration = 501 / 1000\<rparr>,
                     \<lparr>Success = True, Duration = 499 / 1000\<rparr>,
                     \<lparr>Success = False, Duration = 6 / 5\<rparr>])]" "''report.csv''"
        "(initialWorld (\<lambda>path. path = ''report.csv''))"]
    by (simp add: e initialWorld_def formatRendering_def)
qed

text \<open>
  C5, as amended. For a report in one of the three formats: without a destination path
  the rendered report is written to standard output; with a path whose file can be
  created it is written to that file and not to standard output, the file having
  replaced standard output as the table's mirror. When the file cannot be created, the
  error is logged and the function still runs to its end.
\<close>

theorem generateReport_destination:
  assumes "format \<in> {''csv'', ''tsv'', ''table''}"
  shows "(outputFile = [] \<longrightarrow>
       generateReport results format outputFile w =
         w\<lparr>stdout := stdout w @ [Line ''Generating report'', reportOutput results format]\<rparr>)
   \<and> (outputFile \<noteq> [] \<and> creatable w outputFile \<longrightarrow>
       generateReport results format outputFile w =
         w\<lparr>stdout := stdout w @ [Line ''Generating report''],
           files := (files w)(outputFile \<mapsto> [reportOutput results format])\<rparr>)
   \<and> (outputFile \<noteq> [] \<and> \<not> creatable w outputFile \<longrightarrow>
       logfile (generateReport results format outputFile w) =
         logfile w @ [''Error creating file: cannot create file''])"
  using generateReport_stdout [OF assms, of outputFile results w]
    generateReport_file [OF assms, of outputFile w results]
    generateReport_create_fails [of outputFile w results format]
  by blast

theorem generateReport_destination_witness:
  "stdout (generateReport [(''vm'', [\<lparr>Success = True, Duration = 1\<rparr>])] ''csv'' []
      (initialWorld (\<lambda>path. path = ''report.csv''))) =
     [Line ''Generating report'',
      reportOutput [(''vm'', [\<lparr>Success = True, Duration = 1\<rparr>])] ''csv'']
   \<and> stdout (generateReport [(''vm'', [\<lparr>Success = True, Duration = 1\<rparr>])] ''csv''
      ''report.csv'' (initialWorld (\<lambda>path. path = ''report.csv''))) =
     [Line ''Generating report'']
   \<and> files (generateReport [(''vm'', [\<lparr>Success = True, Duration = 1\<rparr>])] ''csv''
      ''report.csv'' (initialWorld (\<lambda>path. path = ''report.csv''))) ''report.csv'' =
     Some [reportOutput [(''vm'', [\<lparr>Success = True, Duration = 1\<rparr>])] ''csv'']
   \<and> logfile (generateReport [(''vm'', [\<lparr>Success = True, Duration = 1\<rparr>])] ''csv''
      ''dir/report.csv'' (initialWorld (\<lambda>path. path = ''report.csv''))) =
     [''Error creating file: cannot create file'']"
  using generateReport_destination [of "''csv''" "[]"
      "[(''vm'', [\<lparr>Success = True, Duration = 1\<rparr>])]"
      "initialWorld (\<lambda>path. path = ''report.csv'')"]
    generateReport_destination [of "''csv''" "''report.csv''"
      "[(''vm'', [\<lparr>Success = True, Duration = 1\<rparr>])]"
      "initialWorld (\<lambda>path. path = ''report.csv'')"]
    generateReport_destination [of "''csv''" "''dir/report.csv''"
      "[(''vm'', [\<lparr>Success = True, Duration = 1\<rparr>])]"
      "initialWorld (\<lambda>path. path = ''report.csv'')"]
  by (simp add: initialWorld_def)

theorem report_not_on_stdout_counterexample:
  "stdout (generateReport [(''vm'', [\<lparr>Success = True, Duration = 1\<rparr>])] ''csv''
      ''report.csv'' (initialWorld (\<lambda>path. path = ''report.csv''))) =
     [Line ''Generating report'']
   \<and> stdout (generateReport [(''vm'', [\<lparr>Success = True, Duration = 1\<rparr>])] ''csv''
      ''dir/report.csv'' (initialWorld (\<lambda>path. path = ''report.csv''))) =
     [Line ''Generating report'', Line ''Error creating file: cannot create file'']
   \<and> files (generateReport [(''vm'', [\<lparr>Success = True, Duration = 1\<rparr>])] ''csv''
      ''dir/report.csv'' (initialWorld (\<lambda>path. path = ''report.csv''))) =
     (\<lambda>path. None)"
  by (simp add: generateReport_def Let_def fmt_Println_def render_def io_Write_def
      os_Create_def SetOutputMirror_def log_Error_def initialWorld_def)

end
